theory Spec2Isabelle
  imports Main "HOL-Library.Sublist"
begin

section \<open>Python values, classes and exception instances\<close>

text \<open>
  A class object is identified by its name together with its linearised proper ancestors:
  \<open>type.mro(c)\<close> is the class itself followed by \<open>cls_ancestors c\<close>. The method
  resolution order is computed by the Python runtime, so it is data of the model.
\<close>

datatype pyclass = PyClass (cls_name: string) (cls_ancestors: "pyclass list")

definition mro :: "pyclass \<Rightarrow> pyclass list" where
  "mro c = c # cls_ancestors c"

definition object_cls :: pyclass where
  "object_cls = PyClass ''object'' []"

definition BaseException_cls :: pyclass where
  "BaseException_cls = PyClass ''BaseException'' [object_cls]"

definition Exception_cls :: pyclass where
  "Exception_cls = PyClass ''Exception'' [BaseException_cls, object_cls]"

definition AttributeError_cls :: pyclass where
  "AttributeError_cls = PyClass ''AttributeError'' [Exception_cls, BaseException_cls, object_cls]"

definition LookupError_cls :: pyclass where
  "LookupError_cls = PyClass ''LookupError'' [Exception_cls, BaseException_cls, object_cls]"

definition KeyError_cls :: pyclass where
  "KeyError_cls =
     PyClass ''KeyError'' [LookupError_cls, Exception_cls, BaseException_cls, object_cls]"

definition KeyboardInterrupt_cls :: pyclass where
  "KeyboardInterrupt_cls = PyClass ''KeyboardInterrupt'' [BaseException_cls, object_cls]"

text \<open>Attribute values, as far as the code inspects them (\<open>is False\<close>, \<open>is True\<close>).\<close>

datatype pyval = PyBool bool | PyNone | PyInt int | PyStr string

text \<open>
  An exception instance: its runtime type and its optional \<open>quiet\<close> attribute
  (\<open>None\<close> when the instance has no such attribute).
\<close>

record exn =
  exc_class :: pyclass
  exc_quiet :: "pyval option"

definition raise_of :: "pyclass \<Rightarrow> exn" where
  "raise_of c = \<lparr>exc_class = c, exc_quiet = None\<rparr>"

definition isinstance :: "exn \<Rightarrow> pyclass \<Rightarrow> bool" where
  "isinstance e c = (c \<in> set (mro (exc_class e)))"

section \<open>Requests, responses and handlers\<close>

text \<open>
  The request as this module reads it: \<open>request.name\<close> (the route name or \<open>None\<close>),
  \<open>request.url\<close> (\<open>None\<close> when the attribute is missing, so that reading it raises
  \<open>AttributeError\<close>) and \<open>request.app.config.NOISY_EXCEPTIONS\<close> (\<open>None\<close> when the
  configuration has no such attribute). A request that is Python's \<open>None\<close> is
  \<open>None :: request option\<close>.
\<close>

record request =
  req_name :: "string option"
  req_url :: "string option"
  req_noisy :: "pyval option"

record http_response =
  body :: string
  status :: int

text \<open>\<open>sanic.response.text(body, status)\<close>\<close>

definition text_response :: "string \<Rightarrow> int \<Rightarrow> http_response" where
  "text_response b st = \<lparr>body = b, status = st\<rparr>"

text \<open>
  A route handler is a function object: it has a \<open>__name__\<close>, it is truthy, and calling it
  returns a response, returns \<open>None\<close>, or raises.
\<close>

record handler =
  h_name :: string
  h_call :: "request option \<Rightarrow> exn \<Rightarrow> exn + http_response option"

section \<open>The handler registry\<close>

type_synonym scope = "string option"
type_synonym handler_key = "pyclass \<times> scope"
type_synonym handler_dict = "handler_key \<rightharpoonup> handler option"

record error_handler =
  handlers :: "(pyclass \<times> handler) list"
  cached_handlers :: handler_dict
  debug :: bool
  fallback :: string
  base :: string

text \<open>\<open>__init__(self, fallback, base)\<close>; the renderer class \<open>base\<close> is kept by name.\<close>

definition init :: "string \<Rightarrow> string \<Rightarrow> error_handler" where
  "init fb b =
     \<lparr>handlers = [], cached_handlers = Map.empty, debug = False, fallback = fb, base = b\<rparr>"

text \<open>\<open>for route in route_names: self.cached_handlers[(exception, route)] = handler\<close>\<close>

fun add_routes :: "pyclass \<Rightarrow> handler \<Rightarrow> string list \<Rightarrow> handler_dict \<Rightarrow> handler_dict" where
  "add_routes exception h [] d = d"
| "add_routes exception h (route # routes) d =
     add_routes exception h routes (d((exception, Some route) \<mapsto> Some h))"

text \<open>
  \<open>add\<close>: \<open>route_names\<close> is \<open>None\<close> when omitted; \<open>if route_names:\<close> is false for
  \<open>None\<close> and for the empty list.
\<close>

definition add :: "pyclass \<Rightarrow> handler \<Rightarrow> string list option \<Rightarrow> error_handler \<Rightarrow> error_handler" where
  "add exception h route_names self =
     (let self1 = self\<lparr>handlers := handlers self @ [(exception, h)]\<rparr> in
      case route_names of
        Some (route # routes) \<Rightarrow>
          self1\<lparr>cached_handlers := add_routes exception h (route # routes) (cached_handlers self1)\<rparr>
      | _ \<Rightarrow>
          self1\<lparr>cached_handlers := (cached_handlers self1)((exception, None) \<mapsto> Some h)\<rparr>)"

text \<open>\<open>dict.get(key)\<close>: the stored value, \<open>None\<close> when the key is missing.\<close>

definition dict_get :: "handler_dict \<Rightarrow> handler_key \<Rightarrow> handler option" where
  "dict_get d k = (case d k of None \<Rightarrow> None | Some v \<Rightarrow> v)"

text \<open>\<open>dict[key]\<close>: raises \<open>KeyError\<close> when the key is missing.\<close>

definition dict_getitem :: "handler_dict \<Rightarrow> handler_key \<Rightarrow> exn + handler option" where
  "dict_getitem d k = (case d k of None \<Rightarrow> Inl (raise_of KeyError_cls) | Some v \<Rightarrow> Inr v)"

text \<open>
  First loop of \<open>lookup\<close>: for each name in \<open>(route_name, None)\<close>, the handler stored for
  the exact class, returned when it is truthy.
\<close>

fun exact_probe :: "handler_dict \<Rightarrow> pyclass \<Rightarrow> scope list \<Rightarrow> handler option" where
  "exact_probe d exception_class [] = None"
| "exact_probe d exception_class (name # names) =
     (case dict_get d (exception_class, name) of
        Some h \<Rightarrow> Some h
      | None \<Rightarrow> exact_probe d exception_class names)"

text \<open>
  Inner loop of the second phase: the first ancestor whose key is in the dictionary;
  the loop breaks once \<open>BaseException\<close> has been tested.
\<close>

fun walk_ancestors :: "handler_dict \<Rightarrow> scope \<Rightarrow> pyclass list \<Rightarrow> handler_key option" where
  "walk_ancestors d name [] = None"
| "walk_ancestors d name (ancestor # rest) =
     (if (ancestor, name) \<in> dom d then Some (ancestor, name)
      else if ancestor = BaseException_cls then None
      else walk_ancestors d name rest)"

text \<open>Outer loop of the second phase, over \<open>(route_name, None)\<close>.\<close>

fun walk_scopes :: "handler_dict \<Rightarrow> scope list \<Rightarrow> pyclass list \<Rightarrow> handler_key option" where
  "walk_scopes d [] ancestors = None"
| "walk_scopes d (name # names) ancestors =
     (case walk_ancestors d name ancestors of
        Some k \<Rightarrow> Some k
      | None \<Rightarrow> walk_scopes d names ancestors)"

text \<open>
  \<open>lookup\<close> returns the handler or \<open>None\<close>, or raises; the registry it leaves behind is
  the second component.
\<close>

definition lookup ::
  "error_handler \<Rightarrow> exn \<Rightarrow> scope \<Rightarrow> (exn + handler option) \<times> error_handler" where
  "lookup self exception route_name =
     (let exception_class = exc_class exception;
          d = cached_handlers self in
      case exact_probe d exception_class [route_name, None] of
        Some h \<Rightarrow> (Inr (Some h), self)
      | None \<Rightarrow>
          (case walk_scopes d [route_name, None] (mro exception_class) of
             Some exception_key \<Rightarrow>
               (case dict_getitem d exception_key of
                  Inl err \<Rightarrow> (Inl err, self)
                | Inr h \<Rightarrow>
                    (Inr h, self\<lparr>cached_handlers := d((exception_class, route_name) \<mapsto> h)\<rparr>))
           | None \<Rightarrow>
               (Inr None, self\<lparr>cached_handlers := d((exception_class, route_name) \<mapsto> None)\<rparr>)))"

section \<open>The dispatch guard\<close>

text \<open>
  The logging sink is the list of messages written so far. \<open>repr\<close> is Python's built-in
  on the request's URL and \<open>exception_response\<close> is the rendering function of
  \<open>sanic.errorpages\<close>; both live outside this module and are parameters.
\<close>

type_synonym logger = "string list"
type_synonym renderer = "request option \<Rightarrow> exn \<Rightarrow> bool \<Rightarrow> string \<Rightarrow> string \<Rightarrow> exn + http_response"

text \<open>
  \<open>try: url = repr(request.url)\<close> / \<open>except AttributeError: url = "unknown"\<close>.
  Reading \<open>url\<close> raises \<open>AttributeError\<close> when the request is \<open>None\<close> or has no such
  attribute.
\<close>

definition best_effort_url :: "(string \<Rightarrow> string) \<Rightarrow> request option \<Rightarrow> string" where
  "best_effort_url repr req =
     (case req of
        None \<Rightarrow> ''unknown''
      | Some rq \<Rightarrow> (case req_url rq of None \<Rightarrow> ''unknown'' | Some u \<Rightarrow> repr u))"

text \<open>
  \<open>ErrorHandler.log\<close>: \<open>getattr\<close> with default \<open>False\<close>; \<open>request.app\<close> raises
  \<open>AttributeError\<close> when the request is \<open>None\<close>; the tests are the identity tests
  \<open>quiet is False\<close> and \<open>noisy is True\<close>.
\<close>

definition log ::
  "(string \<Rightarrow> string) \<Rightarrow> request option \<Rightarrow> exn \<Rightarrow> logger \<Rightarrow> (exn + unit) \<times> logger" where
  "log repr req exception lg =
     (let quiet = (case exc_quiet exception of None \<Rightarrow> PyBool False | Some v \<Rightarrow> v) in
      case req of
        None \<Rightarrow> (Inl (raise_of AttributeError_cls), lg)
      | Some rq \<Rightarrow>
          (let noisy = (case req_noisy rq of None \<Rightarrow> PyBool False | Some v \<Rightarrow> v) in
           if quiet = PyBool False \<or> noisy = PyBool True
           then (Inr (),
                 lg @ [''Exception occurred while handling uri: '' @ best_effort_url repr req])
           else (Inr (), lg)))"

text \<open>\<open>ErrorHandler.default\<close>: log, then render.\<close>

definition default_response ::
  "renderer \<Rightarrow> (string \<Rightarrow> string) \<Rightarrow> error_handler \<Rightarrow> request option \<Rightarrow> exn \<Rightarrow> logger
     \<Rightarrow> (exn + http_response) \<times> logger" where
  "default_response exception_response repr self req exception lg =
     (case log repr req exception lg of
        (Inl err, lg1) \<Rightarrow> (Inl err, lg1)
      | (Inr u, lg1) \<Rightarrow>
          (exception_response req exception (debug self) (base self) (fallback self), lg1))"

text \<open>
  The body of the \<open>try\<close> in \<open>response\<close>: call the handler when there is one, fall back
  to \<open>default\<close> when the response is still \<open>None\<close>.
\<close>

definition try_handler ::
  "renderer \<Rightarrow> (string \<Rightarrow> string) \<Rightarrow> error_handler \<Rightarrow> handler option \<Rightarrow> request option
     \<Rightarrow> exn \<Rightarrow> logger \<Rightarrow> (exn + http_response) \<times> logger" where
  "try_handler exception_response repr self h req exception lg =
     (case (case h of None \<Rightarrow> Inr None | Some f \<Rightarrow> h_call f req exception) of
        Inl err \<Rightarrow> (Inl err, lg)
      | Inr (Some resp) \<Rightarrow> (Inr resp, lg)
      | Inr None \<Rightarrow> default_response exception_response repr self req exception lg)"

text \<open>\<open>"Exception raised in exception handler " '"%s" for uri: %s' % (name, url)\<close>\<close>

definition response_message :: "string \<Rightarrow> string \<Rightarrow> string" where
  "response_message name url =
     ''Exception raised in exception handler \"'' @ name @ ''\" for uri: '' @ url"

definition generic_message :: string where
  "generic_message = ''An error occurred while handling an error''"

text \<open>
  \<open>ErrorHandler.response\<close>. \<open>except Exception\<close> catches what derives from \<open>Exception\<close>
  only; inside it, \<open>handler.__name__\<close> raises \<open>AttributeError\<close> when \<open>handler\<close> is
  \<open>None\<close>. \<open>_lookup\<close> is \<open>_full_lookup\<close>, that is \<open>lookup\<close> with both arguments.
\<close>

definition response ::
  "renderer \<Rightarrow> (string \<Rightarrow> string) \<Rightarrow> error_handler \<Rightarrow> request option \<Rightarrow> exn \<Rightarrow> logger
     \<Rightarrow> (exn + http_response) \<times> error_handler \<times> logger" where
  "response exception_response repr self req exception lg =
     (let route_name = (case req of None \<Rightarrow> None | Some rq \<Rightarrow> req_name rq) in
      case lookup self exception route_name of
        (Inl err, self1) \<Rightarrow> (Inl err, self1, lg)
      | (Inr h, self1) \<Rightarrow>
          (case try_handler exception_response repr self1 h req exception lg of
             (Inr resp, lg1) \<Rightarrow> (Inr resp, self1, lg1)
           | (Inl err, lg1) \<Rightarrow>
               if isinstance err Exception_cls then
                 (let url = best_effort_url repr req in
                  case h of
                    None \<Rightarrow> (Inl (raise_of AttributeError_cls), self1, lg1)
                  | Some f \<Rightarrow>
                      (let lg2 = lg1 @ [response_message (h_name f) url] in
                       if debug self1
                       then (Inr (text_response (response_message (h_name f) url) 500), self1, lg2)
                       else (Inr (text_response generic_message 500), self1, lg2)))
               else (Inl err, self1, lg1)))"

section \<open>Resolution order and the uncached resolution of the specification\<close>

text \<open>The part of an MRO that the ancestor walk visits: up to and including \<open>BaseException\<close>.\<close>

fun upto_base :: "pyclass list \<Rightarrow> pyclass list" where
  "upto_base [] = []"
| "upto_base (a # rest) = (if a = BaseException_cls then [a] else a # upto_base rest)"




text \<open>
  The memoization-free resolution, following the specification's steps 3 and 4 over the
  registered entries only: the exact type under the route scope, then globally; then the
  proper ancestors, nearest first and up to the universal base type, under the route
  scope, then globally.
\<close>

type_synonym entry_table = "handler_key \<rightharpoonup> handler"

fun first_registered :: "entry_table \<Rightarrow> handler_key list \<Rightarrow> handler option" where
  "first_registered entries [] = None"
| "first_registered entries (k # ks) =
     (case entries k of Some h \<Rightarrow> Some h | None \<Rightarrow> first_registered entries ks)"

definition uncached_resolve :: "entry_table \<Rightarrow> pyclass \<Rightarrow> scope \<Rightarrow> handler option" where
  "uncached_resolve entries t route_scope =
     (case first_registered entries [(t, route_scope), (t, None)] of
        Some h \<Rightarrow> Some h
      | None \<Rightarrow>
          first_registered entries
            (map (\<lambda>a. (a, route_scope)) (upto_base (cls_ancestors t))
               @ map (\<lambda>a. (a, None)) (upto_base (cls_ancestors t))))"

text \<open>The entries a registry holds right after registration: what \<open>add\<close> has stored.\<close>

definition registered_entries :: "error_handler \<Rightarrow> entry_table" where
  "registered_entries self = (\<lambda>k. case cached_handlers self k of Some v \<Rightarrow> v | None \<Rightarrow> None)"

section \<open>A small application used in the examples\<close>

definition A_cls :: pyclass where
  "A_cls = PyClass ''A'' [Exception_cls, BaseException_cls, object_cls]"

definition B_cls :: pyclass where
  "B_cls = PyClass ''B'' [A_cls, Exception_cls, BaseException_cls, object_cls]"

definition C_cls :: pyclass where
  "C_cls = PyClass ''C'' [B_cls, A_cls, Exception_cls, BaseException_cls, object_cls]"

definition ok_handler :: "string \<Rightarrow> handler" where
  "ok_handler n = \<lparr>h_name = n, h_call = (\<lambda>req e. Inr (Some (text_response n 200)))\<rparr>"

definition raising_handler :: "string \<Rightarrow> pyclass \<Rightarrow> handler" where
  "raising_handler n c = \<lparr>h_name = n, h_call = (\<lambda>req e. Inl (raise_of c))\<rparr>"

definition html_renderer :: renderer where
  "html_renderer req e dbg b fb = Inr (text_response ''rendered'' 500)"

definition quote_repr :: "string \<Rightarrow> string" where
  "quote_repr u = ''<'' @ u @ ''>''"

definition plain_request :: request where
  "plain_request = \<lparr>req_name = Some ''api'', req_url = Some ''http://h/x'', req_noisy = None\<rparr>"

section \<open>Helper lemmas\<close>


lemma walk_ancestors_in_dom:
  "walk_ancestors d name ancestors = Some k \<Longrightarrow> k \<in> dom d"
  by (induction ancestors) (auto split: if_splits)

lemma walk_scopes_in_dom:
  "walk_scopes d names ancestors = Some k \<Longrightarrow> k \<in> dom d"
  by (induction names) (auto split: option.splits dest: walk_ancestors_in_dom)












section \<open>The claims\<close>

text \<open>
  C8: for every registry, exception instance and optional route scope, \<open>lookup\<close> returns
  normally, with a handler or with \<open>None\<close>; the subscript \<open>cached_handlers[key]\<close> never
  raises \<open>KeyError\<close> because it is guarded by \<open>key in cached_handlers\<close>. When the result
  is \<open>None\<close>, that absence has been stored under the exact (type, scope) key.
\<close>

theorem lookup_never_raises:
  "\<exists>res. fst (lookup self exception route_name) = Inr res \<and>
     (res = None \<longrightarrow>
        cached_handlers (snd (lookup self exception route_name))
          (exc_class exception, route_name) = Some None)"
proof (cases "exact_probe (cached_handlers self) (exc_class exception) [route_name, None]")
  case (Some h)
  then show ?thesis by (simp add: lookup_def)
next
  case None
  note probe = this
  show ?thesis
  proof (cases "walk_scopes (cached_handlers self) [route_name, None] (mro (exc_class exception))")
    case None
    with probe show ?thesis by (simp add: lookup_def)
  next
    case (Some k)
    from walk_scopes_in_dom [OF Some] obtain v where "cached_handlers self k = Some v"
      by auto
    with probe Some show ?thesis by (simp add: lookup_def dict_getitem_def)
  qed
qed

theorem lookup_never_raises_witness:
  "fst (lookup (init ''auto'' ''html'') (raise_of A_cls) (Some ''api'')) = Inr None \<and>
   cached_handlers (snd (lookup (init ''auto'' ''html'') (raise_of A_cls) (Some ''api'')))
       (exc_class (raise_of A_cls), Some ''api'') = Some None"
proof -
  have "exact_probe (cached_handlers (init ''auto'' ''html'')) (exc_class (raise_of A_cls))
          [Some ''api'', None] = None"
    by (simp add: init_def dict_get_def)
  moreover have "walk_scopes (cached_handlers (init ''auto'' ''html'')) [Some ''api'', None]
          (mro (exc_class (raise_of A_cls))) = None"
    by (simp add: init_def mro_def raise_of_def A_cls_def Exception_cls_def)
  ultimately have r: "fst (lookup (init ''auto'' ''html'') (raise_of A_cls) (Some ''api'')) = Inr None"
    by (simp add: lookup_def)
  from lookup_never_raises [of "init ''auto'' ''html''" "raise_of A_cls" "Some ''api''"] r
  show ?thesis by auto
qed

text \<open>
  C10: \<open>add\<close> with an empty list of route names is \<open>add\<close> without route names: the table
  gets the single global entry \<open>(exception, None)\<close> and nothing else changes.
\<close>

theorem add_empty_routes:
  "add exception h (Some []) self = add exception h None self \<and>
   cached_handlers (add exception h (Some []) self) =
     (cached_handlers self)((exception, None) \<mapsto> Some h)"
  by (simp add: add_def)

text \<open>
  C4, as stated, fails: a miss is cached for \<open>(A, "api")\<close>, the handler registered
  afterwards for that same key is returned by the next \<open>lookup\<close>.
\<close>

theorem stale_absence_counterexample:
  "fst (lookup (init ''auto'' ''html'') (raise_of A_cls) (Some ''api'')) = Inr None \<and>
   cached_handlers (snd (lookup (init ''auto'' ''html'') (raise_of A_cls) (Some ''api'')))
     (A_cls, Some ''api'') = Some None \<and>
   fst (lookup (add A_cls (ok_handler ''late'') (Some [''api''])
                  (snd (lookup (init ''auto'' ''html'') (raise_of A_cls) (Some ''api''))))
          (raise_of A_cls) (Some ''api'')) = Inr (Some (ok_handler ''late''))"
  by (simp add: lookup_def add_def dict_get_def init_def raise_of_def mro_def A_cls_def Let_def
      Exception_cls_def BaseException_cls_def object_cls_def)

text \<open>
  C4 (amended): \<open>add\<close> writes into the table that \<open>lookup\<close> reads, so after registering
  a handler for the exact type and scope of the exception, \<open>lookup\<close> of that pair returns
  that handler, whatever the table held under the key before (a cached absence included).
\<close>

theorem lookup_after_add_same_key:
  "fst (lookup (add (exc_class exception) h
                  (case route_name of None \<Rightarrow> None | Some r \<Rightarrow> Some [r]) self)
          exception route_name) = Inr (Some h)"
  by (cases route_name) (simp_all add: lookup_def add_def dict_get_def Let_def)






text \<open>
  C7: with \<open>h1\<close> registered for \<open>(t, ra)\<close> and \<open>h2\<close> for \<open>(t, None)\<close>, resolving an
  instance of \<open>t\<close> under \<open>ra\<close> returns \<open>h1\<close>; under another route \<open>rb\<close> that has no
  handler of its own for \<open>t\<close>, or without a route, it returns \<open>h2\<close>.
\<close>

theorem route_scope_precedence:
  assumes "exc_class exception = t"
    and "rb \<noteq> ra"
    and "dict_get (cached_handlers self) (t, Some rb) = None"
  shows "fst (lookup (add t h2 None (add t h1 (Some [ra]) self)) exception (Some ra))
           = Inr (Some h1) \<and>
         fst (lookup (add t h2 None (add t h1 (Some [ra]) self)) exception (Some rb))
           = Inr (Some h2) \<and>
         fst (lookup (add t h2 None (add t h1 (Some [ra]) self)) exception None)
           = Inr (Some h2)"
  using assms by (simp add: lookup_def add_def dict_get_def Let_def)

theorem route_scope_precedence_witness:
  "exc_class (raise_of A_cls) = A_cls \<and> ''routeB'' \<noteq> ''routeA'' \<and>
   dict_get (cached_handlers (init ''auto'' ''html'')) (A_cls, Some ''routeB'') = None \<and>
   fst (lookup (add A_cls (ok_handler ''H2'') None
                  (add A_cls (ok_handler ''H1'') (Some [''routeA'']) (init ''auto'' ''html'')))
          (raise_of A_cls) (Some ''routeA'')) = Inr (Some (ok_handler ''H1'')) \<and>
   fst (lookup (add A_cls (ok_handler ''H2'') None
                  (add A_cls (ok_handler ''H1'') (Some [''routeA'']) (init ''auto'' ''html'')))
          (raise_of A_cls) (Some ''routeB'')) = Inr (Some (ok_handler ''H2'')) \<and>
   fst (lookup (add A_cls (ok_handler ''H2'') None
                  (add A_cls (ok_handler ''H1'') (Some [''routeA'']) (init ''auto'' ''html'')))
          (raise_of A_cls) None) = Inr (Some (ok_handler ''H2''))"
proof -
  have a: "exc_class (raise_of A_cls) = A_cls" by (simp add: raise_of_def)
  have b: "''routeB'' \<noteq> ''routeA''" by simp
  have c: "dict_get (cached_handlers (init ''auto'' ''html'')) (A_cls, Some ''routeB'') = None"
    by (simp add: dict_get_def init_def)
  from route_scope_precedence [OF a b c, of "ok_handler ''H2''" "ok_handler ''H1''"] a b c
  show ?thesis by blast
qed

text \<open>
  C3: registration is complete (\<open>A\<close> has a handler under \<open>"api"\<close> and a global one) before
  the first \<open>lookup\<close>. The uncached resolution of a \<open>B\<close> instance (\<open>B\<close> derives from
  \<open>A\<close>) under \<open>"api"\<close> is the scoped handler, and so is a first \<open>lookup\<close>; but after a
  \<open>lookup\<close> of the same type without a route, which stores its result under
  \<open>(B, None)\<close>, the same call returns the global handler.
\<close>

theorem cache_changes_resolution:
  "uncached_resolve
     (registered_entries
        (add A_cls (ok_handler ''global'') None
           (add A_cls (ok_handler ''scoped'') (Some [''api'']) (init ''auto'' ''html''))))
     B_cls (Some ''api'') = Some (ok_handler ''scoped'') \<and>
   fst (lookup
          (add A_cls (ok_handler ''global'') None
             (add A_cls (ok_handler ''scoped'') (Some [''api'']) (init ''auto'' ''html'')))
          (raise_of B_cls) (Some ''api'')) = Inr (Some (ok_handler ''scoped'')) \<and>
   fst (lookup
          (snd (lookup
                  (add A_cls (ok_handler ''global'') None
                     (add A_cls (ok_handler ''scoped'') (Some [''api''])
                        (init ''auto'' ''html'')))
                  (raise_of B_cls) None))
          (raise_of B_cls) (Some ''api'')) = Inr (Some (ok_handler ''global'')) \<and>
   ok_handler ''global'' \<noteq> ok_handler ''scoped''"
  by (simp add: uncached_resolve_def registered_entries_def lookup_def add_def dict_get_def
      dict_getitem_def init_def raise_of_def mro_def Let_def A_cls_def B_cls_def
      Exception_cls_def BaseException_cls_def object_cls_def ok_handler_def)

text \<open>
  The same pair can also resolve differently over time: \<open>(C, "api")\<close> is absent at
  first (a cached absence of the ancestor \<open>A\<close> stops the walk) and a handler later.
\<close>

lemma repeated_resolution_changes:
  "fst (lookup
          (snd (lookup (add B_cls (ok_handler ''hb'') None (init ''auto'' ''html''))
                  (raise_of A_cls) (Some ''api'')))
          (raise_of C_cls) (Some ''api'')) = Inr None \<and>
   fst (lookup
          (snd (lookup
             (snd (lookup
                (snd (lookup (add B_cls (ok_handler ''hb'') None (init ''auto'' ''html''))
                        (raise_of A_cls) (Some ''api'')))
                (raise_of C_cls) (Some ''api'')))
             (raise_of C_cls) None))
          (raise_of C_cls) (Some ''api'')) = Inr (Some (ok_handler ''hb''))"
  by (simp add: lookup_def add_def dict_get_def
      dict_getitem_def init_def raise_of_def mro_def Let_def A_cls_def B_cls_def C_cls_def
      Exception_cls_def BaseException_cls_def object_cls_def)

text \<open>
  C9: with a request at hand and with \<open>quiet\<close> and \<open>NOISY_EXCEPTIONS\<close> booleans (\<open>False\<close>
  when absent), \<open>log\<close> returns normally and appends an entry if and only if the exception
  is not quiet or the override is set; the entry carries the best-effort URL; \<open>default\<close>
  logs exactly what \<open>log\<close> logs.
\<close>

theorem log_policy:
  assumes "exc_quiet exception = None \<and> \<not> q \<or> exc_quiet exception = Some (PyBool q)"
    and "req_noisy rq = None \<and> \<not> n \<or> req_noisy rq = Some (PyBool n)"
  shows "fst (log repr (Some rq) exception lg) = Inr () \<and>
         (snd (log repr (Some rq) exception lg) \<noteq> lg \<longleftrightarrow> \<not> q \<or> n) \<and>
         (\<not> q \<or> n \<longrightarrow>
            snd (log repr (Some rq) exception lg) =
              lg @ [''Exception occurred while handling uri: '' @ best_effort_url repr (Some rq)]) \<and>
         snd (default_response exception_response repr self (Some rq) exception lg) =
           snd (log repr (Some rq) exception lg)"
  using assms by (auto simp: log_def default_response_def Let_def)

theorem log_policy_witness:
  "(exc_quiet \<lparr>exc_class = A_cls, exc_quiet = Some (PyBool True)\<rparr> = Some (PyBool True)) \<and>
   (req_noisy plain_request = None \<and> \<not> False) \<and>
   snd (log quote_repr (Some plain_request)
          \<lparr>exc_class = A_cls, exc_quiet = Some (PyBool True)\<rparr> []) = [] \<and>
   (req_noisy (plain_request\<lparr>req_noisy := Some (PyBool True)\<rparr>) = Some (PyBool True)) \<and>
   snd (log quote_repr (Some (plain_request\<lparr>req_noisy := Some (PyBool True)\<rparr>))
          \<lparr>exc_class = A_cls, exc_quiet = Some (PyBool True)\<rparr> []) =
     [''Exception occurred while handling uri: <http://h/x>'']"
proof -
  let ?e = "\<lparr>exc_class = A_cls, exc_quiet = Some (PyBool True)\<rparr>"
  let ?loud = "plain_request\<lparr>req_noisy := Some (PyBool True)\<rparr>"
  have q: "exc_quiet ?e = None \<and> \<not> True \<or> exc_quiet ?e = Some (PyBool True)" by simp
  have n0: "req_noisy plain_request = None \<and> \<not> False \<or>
            req_noisy plain_request = Some (PyBool False)"
    by (simp add: plain_request_def)
  have n1: "req_noisy ?loud = None \<and> \<not> True \<or> req_noisy ?loud = Some (PyBool True)"
    by simp
  from log_policy [OF q n0, of quote_repr "[]"]
  have silent: "snd (log quote_repr (Some plain_request) ?e []) = []" by simp
  from log_policy [OF q n1, of quote_repr "[]"]
  have loud: "snd (log quote_repr (Some ?loud) ?e []) =
      [''Exception occurred while handling uri: <http://h/x>'']"
    by (simp add: best_effort_url_def plain_request_def quote_repr_def)
  from silent loud show ?thesis by (simp add: plain_request_def)
qed



text \<open>
  C2: no handler is registered and the request is \<open>None\<close>. \<open>default\<close> raises
  \<open>AttributeError\<close> in \<open>log\<close> (\<open>request.app\<close>), the \<open>except Exception\<close> block reads
  \<open>handler.__name__\<close> of \<open>None\<close>, and that \<open>AttributeError\<close> leaves \<open>response\<close>.
\<close>

theorem response_raises_without_handler:
  "fst (lookup (init ''auto'' ''html'') (raise_of A_cls) None) = Inr None \<and>
   fst (response html_renderer quote_repr (init ''auto'' ''html'') None (raise_of A_cls) [])
     = Inl (raise_of AttributeError_cls)"
  by (simp add: response_def try_handler_def default_response_def log_def lookup_def
      init_def dict_get_def raise_of_def mro_def Let_def isinstance_def best_effort_url_def
      A_cls_def AttributeError_cls_def Exception_cls_def BaseException_cls_def object_cls_def)

text \<open>
  \<open>except Exception\<close> lets what does not derive from \<open>Exception\<close> through.
\<close>

lemma response_propagates_non_exception:
  "fst (response html_renderer quote_repr
          (add A_cls (raising_handler ''stop'' KeyboardInterrupt_cls) None (init ''auto'' ''html''))
          (Some plain_request) (raise_of A_cls) [])
     = Inl (raise_of KeyboardInterrupt_cls)"
  by (simp add: response_def try_handler_def lookup_def add_def
      init_def dict_get_def raise_of_def mro_def Let_def isinstance_def
      plain_request_def raising_handler_def
      KeyboardInterrupt_cls_def Exception_cls_def BaseException_cls_def object_cls_def)

end
